theory Spec2Isabelle
  imports Complex_Main "HOL-Library.Sublist"
begin

section \<open>Python values and builtins used by mp4\_converter.py\<close>

text \<open>
  Strings are \<open>char list\<close> (ASCII). A finite Python float is idealised as a real:
  rounding and overflow of IEEE doubles are outside this model; the infinities and
  NaN are values of their own. Exceptions are values; a function that can raise
  returns \<open>py_exception + 'a\<close> with \<open>Inl\<close> for the exception.
\<close>

text \<open>
  The subclasses of \<open>Exception\<close> that occur; \<open>except Exception\<close> catches each of
  them. \<open>KeyboardInterrupt\<close> is not one of them: the interrupt is modelled where an
  encode subprocess is supervised, as one way a supervised run can end.
\<close>

datatype py_exception =
    TimeoutExpired | CalledProcessError | FileNotFoundError | PermissionError
  | ValueError | IndexError | ZeroDivisionError | TypeError

text \<open>What \<open>subprocess.run(cmd, capture_output=True, ...)\<close> can do: return with an
  exit status and the captured standard output, or raise.\<close>

datatype run_outcome = Returned int string | Raised py_exception

text \<open>\<open>needle in haystack\<close> on strings: a contiguous occurrence.\<close>

fun py_in :: "string \<Rightarrow> string \<Rightarrow> bool" where
  "py_in s [] = (s = [])"
| "py_in s (c # cs) = (prefix s (c # cs) \<or> py_in s cs)"

text \<open>\<open>list.insert(i, x)\<close>: a negative index counts from the end, and an index out of
  range is clipped to the nearest end.\<close>

definition py_insert :: "'a list \<Rightarrow> int \<Rightarrow> 'a \<Rightarrow> 'a list" where
  "py_insert xs i x =
     (let n = int (length xs);
          j = (if i < 0 then max 0 (n + i) else min i n)
      in take (nat j) xs @ [x] @ drop (nat j) xs)"

text \<open>The ASCII characters \<open>str.strip()\<close> removes and \<open>int()\<close>/\<open>float()\<close> skip.\<close>

definition is_space :: "char \<Rightarrow> bool" where
  "is_space c = (c \<in> set [CHR 0x09, CHR 0x0A, CHR 0x0B, CHR 0x0C, CHR 0x0D,
                            CHR 0x1C, CHR 0x1D, CHR 0x1E, CHR 0x1F, CHR '' ''])"

definition py_strip :: "string \<Rightarrow> string" where
  "py_strip s = rev (dropWhile is_space (rev (dropWhile is_space s)))"

text \<open>\<open>s.split(sep)\<close> for a one-character separator: never an empty list.\<close>

fun py_split :: "char \<Rightarrow> string \<Rightarrow> string list" where
  "py_split sep [] = [[]]"
| "py_split sep (c # cs) =
     (if c = sep then [] # py_split sep cs
      else (case py_split sep cs of [] \<Rightarrow> [[c]] | w # ws \<Rightarrow> (c # w) # ws))"

text \<open>\<open>xs[i]\<close> for a non-negative literal index.\<close>

definition py_item :: "'a list \<Rightarrow> nat \<Rightarrow> py_exception + 'a" where
  "py_item xs i = (if i < length xs then Inr (xs ! i) else Inl IndexError)"

definition is_digit :: "char \<Rightarrow> bool" where
  "is_digit c = (c \<in> set ''0123456789'')"

definition digit_val :: "char \<Rightarrow> nat" where
  "digit_val c =
     (case map_of (zip ''0123456789'' [0, 1, 2, 3, 4, 5, 6, 7, 8, 9]) c of
        Some d \<Rightarrow> d | None \<Rightarrow> 0)"

definition nat_of_digits :: "string \<Rightarrow> nat" where
  "nat_of_digits ds = foldl (\<lambda>a c. 10 * a + digit_val c) 0 ds"

text \<open>The digit part of a Python numeric literal: digits, with single underscores
  allowed between two digits. The result is the digits without the underscores.\<close>

fun digitpart :: "string \<Rightarrow> string option" where
  "digitpart [] = None"
| "digitpart [c] = (if is_digit c then Some [c] else None)"
| "digitpart (c # d # cs) =
     (if is_digit c
      then (if d = CHR ''_'' then map_option ((#) c) (digitpart cs)
            else map_option ((#) c) (digitpart (d # cs)))
      else None)"

text \<open>A leading sign: whether it is a minus, and the rest.\<close>

definition split_sign :: "string \<Rightarrow> bool \<times> string" where
  "split_sign t =
     (case t of
        [] \<Rightarrow> (False, [])
      | c # cs \<Rightarrow> if c = CHR ''-'' then (True, cs)
                 else if c = CHR ''+'' then (False, cs) else (False, t))"

text \<open>\<open>int(s)\<close> in base 10: surrounding whitespace, an optional sign, a digit part;
  anything else raises \<open>ValueError\<close>. (The interpreter's limit on the number of digits
  is not modelled.)\<close>

definition py_int :: "string \<Rightarrow> py_exception + int" where
  "py_int s =
     (let (neg, body) = split_sign (py_strip s)
      in case digitpart body of
           None \<Rightarrow> Inl ValueError
         | Some ds \<Rightarrow> Inr (if neg then - int (nat_of_digits ds) else int (nat_of_digits ds)))"

datatype pyfloat = Finite real | PosInf | NegInf | NaN

definition lower_ascii :: "char \<Rightarrow> char" where
  "lower_ascii c =
     (case map_of (zip ''ABCDEFGHIJKLMNOPQRSTUVWXYZ'' ''abcdefghijklmnopqrstuvwxyz'') c of
        Some d \<Rightarrow> d | None \<Rightarrow> c)"

text \<open>An optional part of a mantissa: empty, or a digit part.\<close>

definition opt_digits :: "string \<Rightarrow> string option" where
  "opt_digits s = (if s = [] then Some [] else digitpart s)"

text \<open>The mantissa \<open>[digits][.[digits]]\<close> with at least one digit.\<close>

definition mantissa :: "string \<Rightarrow> real option" where
  "mantissa m =
     (let ip = takeWhile (\<lambda>c. c \<noteq> CHR ''.'') m;
          r = dropWhile (\<lambda>c. c \<noteq> CHR ''.'') m
      in if r = [] then map_option (\<lambda>ds. real (nat_of_digits ds)) (digitpart ip)
         else (case (opt_digits ip, opt_digits (tl r)) of
                 (Some i, Some f) \<Rightarrow>
                   if i = [] \<and> f = [] then None
                   else Some (real (nat_of_digits (i @ f)) / 10 ^ length f)
               | _ \<Rightarrow> None))"

text \<open>The exponent after \<open>e\<close>/\<open>E\<close>: an optional sign and a digit part.\<close>

definition exponent :: "string \<Rightarrow> int option" where
  "exponent s =
     (let (neg, body) = split_sign s
      in map_option (\<lambda>ds. if neg then - int (nat_of_digits ds) else int (nat_of_digits ds))
           (digitpart body))"

definition decimal :: "string \<Rightarrow> real option" where
  "decimal body =
     (let m = takeWhile (\<lambda>c. c \<noteq> CHR ''e'' \<and> c \<noteq> CHR ''E'') body;
          r = dropWhile (\<lambda>c. c \<noteq> CHR ''e'' \<and> c \<noteq> CHR ''E'') body
      in case mantissa m of
           None \<Rightarrow> None
         | Some v \<Rightarrow>
             if r = [] then Some v
             else (case exponent (tl r) of
                     None \<Rightarrow> None
                   | Some e \<Rightarrow> Some (if 0 \<le> e then v * 10 ^ nat e else v / 10 ^ nat (- e))))"

text \<open>\<open>float(s)\<close>: surrounding whitespace, an optional sign, then \<open>inf\<close>, \<open>infinity\<close>
  or \<open>nan\<close> in any letter case, or a decimal number; anything else raises
  \<open>ValueError\<close>.\<close>

definition py_float :: "string \<Rightarrow> py_exception + pyfloat" where
  "py_float s =
     (let (neg, body) = split_sign (py_strip s);
          low = map lower_ascii body
      in if low = ''inf'' \<or> low = ''infinity'' then Inr (if neg then NegInf else PosInf)
         else if low = ''nan'' then Inr NaN
         else (case decimal body of
                 None \<Rightarrow> Inl ValueError
               | Some v \<Rightarrow> Inr (Finite (if neg then - v else v))))"

text \<open>\<open>s.replace(old, '')\<close> for a non-empty \<open>old\<close>: every occurrence, left to right.\<close>

function py_remove :: "string \<Rightarrow> string \<Rightarrow> string" where
  "py_remove old [] = []"
| "py_remove old (c # cs) =
     (if old \<noteq> [] \<and> prefix old (c # cs) then py_remove old (drop (length old) (c # cs))
      else c # py_remove old cs)"
  by pat_completeness auto
termination
  by (relation "measure (\<lambda>(old, s). length s)") auto

section \<open>detect\_gpu\_encoder\<close>

definition encoders :: "(string \<times> string) list" where
  "encoders = [(''h264_nvenc'', ''NVIDIA NVENC''),
               (''h264_amf'', ''AMD AMF''),
               (''h264_qsv'', ''Intel QuickSync''),
               (''libx264'', ''CPU (fallback)'')]"

definition probe_cmd :: "string \<Rightarrow> string list" where
  "probe_cmd encoder =
     [''ffmpeg'', ''-hide_banner'', ''-f'', ''lavfi'', ''-i'',
      ''testsrc=duration=1:size=320x240:rate=1'',
      ''-c:v'', encoder, ''-f'', ''null'', ''-'']"

text \<open>The \<open>for\<close> loop over the candidates; \<open>run\<close> is what \<open>subprocess.run\<close> does with
  a command. The \<open>except\<close> clause names three exception classes; any other
  exception leaves the function.\<close>

fun detect_loop :: "(string list \<Rightarrow> run_outcome) \<Rightarrow> (string \<times> string) list \<Rightarrow> py_exception + string" where
  "detect_loop run [] = Inr ''libx264''"
| "detect_loop run ((encoder, name) # rest) =
     (case run (probe_cmd encoder) of
        Returned returncode out \<Rightarrow>
          if returncode = 0 then Inr encoder else detect_loop run rest
      | Raised e \<Rightarrow>
          if e \<in> {TimeoutExpired, CalledProcessError, FileNotFoundError}
          then detect_loop run rest else Inl e)"

definition detect_gpu_encoder :: "(string list \<Rightarrow> run_outcome) \<Rightarrow> py_exception + string" where
  "detect_gpu_encoder run = detect_loop run encoders"

text \<open>A candidate is accepted when its probe exits with status 0, and rejected when
  the probe exits with another status or raises one of the caught exceptions.\<close>

definition accepted :: "(string list \<Rightarrow> run_outcome) \<Rightarrow> string \<Rightarrow> bool" where
  "accepted run encoder =
     (case run (probe_cmd encoder) of
        Returned returncode out \<Rightarrow> returncode = 0
      | Raised e \<Rightarrow> False)"

definition rejected :: "(string list \<Rightarrow> run_outcome) \<Rightarrow> string \<Rightarrow> bool" where
  "rejected run encoder =
     (case run (probe_cmd encoder) of
        Returned returncode out \<Rightarrow> returncode \<noteq> 0
      | Raised e \<Rightarrow> e \<in> {TimeoutExpired, CalledProcessError, FileNotFoundError})"

section \<open>convert\_video\<close>

definition scale_filter_const :: string where
  "scale_filter_const =
     ''scale=1920:1080:force_original_aspect_ratio=decrease,pad=1920:1080:-1:-1:black''"

text \<open>The successive \<open>cmd.insert(-3, x)\<close> calls of one branch.\<close>

definition inserts :: "string list \<Rightarrow> string list \<Rightarrow> string list" where
  "inserts cmd xs = foldl (\<lambda>c x. py_insert c (- 3) x) cmd xs"

definition convert_video ::
  "string \<Rightarrow> string \<Rightarrow> int \<Rightarrow> int \<Rightarrow> string \<Rightarrow> py_exception + string list" where
  "convert_video input_path output_path original_width original_height gpu_encoder =
     (if original_height = 0 then Inl ZeroDivisionError
      else
        let aspect_ratio = real_of_int original_width / real_of_int original_height;
            target_aspect = (1920 :: real) / 1080;
            scale_filter =
              (if aspect_ratio > target_aspect
               then ''scale=1920:1080:force_original_aspect_ratio=decrease,pad=1920:1080:-1:-1:black''
               else ''scale=1920:1080:force_original_aspect_ratio=decrease,pad=1920:1080:-1:-1:black'');
            cmd = [''ffmpeg'', ''-i'', input_path, ''-vf'', scale_filter,
                   ''-c:v'', gpu_encoder, ''-c:a'', ''copy'', ''-y'', ''-stats'', output_path]
        in Inr (if py_in ''nvenc'' gpu_encoder
                then inserts cmd [''-preset'', ''p1'', ''-tune'', ''hq'', ''-rc'', ''vbr'', ''-cq'', ''23'']
                else if py_in ''amf'' gpu_encoder
                then inserts cmd [''-usage'', ''transcoding'', ''-rc'', ''cqp'',
                                  ''-qp_i'', ''23'', ''-qp_p'', ''23'']
                else if py_in ''qsv'' gpu_encoder
                then inserts cmd [''-preset'', ''veryfast'', ''-global_quality'', ''23'']
                else inserts cmd [''-preset'', ''ultrafast'', ''-crf'', ''23'']))"

section \<open>Float arithmetic\<close>

text \<open>The operations on floats the converter uses, on finite values, the two
  infinities and NaN (the sign of zero is not tracked). Only division raises.\<close>

fun pf_gt :: "pyfloat \<Rightarrow> pyfloat \<Rightarrow> bool" where
  "pf_gt (Finite x) (Finite y) = (x > y)"
| "pf_gt PosInf (Finite y) = True"
| "pf_gt PosInf NegInf = True"
| "pf_gt (Finite x) NegInf = True"
| "pf_gt _ _ = False"

fun pf_neg :: "pyfloat \<Rightarrow> pyfloat" where
  "pf_neg (Finite x) = Finite (- x)"
| "pf_neg PosInf = NegInf"
| "pf_neg NegInf = PosInf"
| "pf_neg NaN = NaN"

fun pf_add :: "pyfloat \<Rightarrow> pyfloat \<Rightarrow> pyfloat" where
  "pf_add (Finite x) (Finite y) = Finite (x + y)"
| "pf_add NaN _ = NaN"
| "pf_add _ NaN = NaN"
| "pf_add PosInf NegInf = NaN"
| "pf_add NegInf PosInf = NaN"
| "pf_add PosInf _ = PosInf"
| "pf_add _ PosInf = PosInf"
| "pf_add NegInf _ = NegInf"
| "pf_add _ NegInf = NegInf"

definition pf_sub :: "pyfloat \<Rightarrow> pyfloat \<Rightarrow> pyfloat" where
  "pf_sub a b = pf_add a (pf_neg b)"

text \<open>An infinity of the sign of \<open>s\<close>, or NaN when \<open>s\<close> is zero.\<close>

definition signed_inf :: "real \<Rightarrow> pyfloat" where
  "signed_inf s = (if s = 0 then NaN else if s > 0 then PosInf else NegInf)"

fun pf_mul :: "pyfloat \<Rightarrow> pyfloat \<Rightarrow> pyfloat" where
  "pf_mul (Finite x) (Finite y) = Finite (x * y)"
| "pf_mul NaN _ = NaN"
| "pf_mul _ NaN = NaN"
| "pf_mul PosInf (Finite y) = signed_inf y"
| "pf_mul NegInf (Finite y) = signed_inf (- y)"
| "pf_mul (Finite x) PosInf = signed_inf x"
| "pf_mul (Finite x) NegInf = signed_inf (- x)"
| "pf_mul PosInf PosInf = PosInf"
| "pf_mul NegInf NegInf = PosInf"
| "pf_mul PosInf NegInf = NegInf"
| "pf_mul NegInf PosInf = NegInf"

fun pf_div :: "pyfloat \<Rightarrow> pyfloat \<Rightarrow> py_exception + pyfloat" where
  "pf_div a (Finite y) =
     (if y = 0 then Inl ZeroDivisionError
      else (case a of
              Finite x \<Rightarrow> Inr (Finite (x / y))
            | PosInf \<Rightarrow> Inr (signed_inf y)
            | NegInf \<Rightarrow> Inr (signed_inf (- y))
            | NaN \<Rightarrow> Inr NaN))"
| "pf_div NaN _ = Inr NaN"
| "pf_div _ NaN = Inr NaN"
| "pf_div (Finite x) _ = Inr (Finite 0)"
| "pf_div _ _ = Inr NaN"

section \<open>parse\_progress\<close>

text \<open>
  The body of a \<open>try\<close> block either raises (\<open>Inl\<close>), returns a value from the
  function (\<open>Inr (Some r)\<close>) or runs to its end (\<open>Inr None\<close>). An \<open>except\<close> clause
  whose handler is \<open>pass\<close> turns the exceptions it names into running to the end.
\<close>

definition except_pass :: "py_exception set \<Rightarrow> py_exception + 'a option \<Rightarrow> py_exception + 'a option" where
  "except_pass caught body =
     (case body of
        Inl e \<Rightarrow> if e \<in> caught then Inr None else Inl e
      | Inr r \<Rightarrow> Inr r)"

type_synonym progress = "pyfloat option \<times> pyfloat option"

definition out_time_body :: "string \<Rightarrow> pyfloat \<Rightarrow> py_exception + progress option" where
  "out_time_body line duration =
     (case py_item (py_split (CHR ''='') line) 1 of
        Inl e \<Rightarrow> Inl e
      | Inr field \<Rightarrow>
          (case py_int (py_strip field) of
             Inl e \<Rightarrow> Inl e
           | Inr time_us \<Rightarrow>
               let time_seconds = Finite (real_of_int time_us / 1000000)
               in if pf_gt duration (Finite 0)
                  then (case pf_div time_seconds duration of
                          Inl e \<Rightarrow> Inl e
                        | Inr q \<Rightarrow> Inr (Some (Some time_seconds, Some (pf_mul q (Finite 100)))))
                  else Inr None))"

definition fps_body :: "string \<Rightarrow> py_exception + progress option" where
  "fps_body line =
     (case py_item (py_split (CHR ''='') line) 1 of
        Inl e \<Rightarrow> Inl e
      | Inr field \<Rightarrow>
          let fps_str = py_strip field;
              fps_str = py_strip (py_remove '' fps'' fps_str)
          in (case py_float fps_str of
                Inl e \<Rightarrow> Inl e
              | Inr fps \<Rightarrow> Inr (Some (None, Some fps))))"

definition parse_progress :: "string \<Rightarrow> pyfloat \<Rightarrow> py_exception + progress" where
  "parse_progress line duration =
     (case (if py_in ''out_time_us='' line
            then except_pass {ValueError, IndexError} (out_time_body line duration)
            else if py_in ''fps='' line
            then except_pass {ValueError, IndexError} (fps_body line)
            else Inr None) of
        Inl e \<Rightarrow> Inl e
      | Inr (Some r) \<Rightarrow> Inr r
      | Inr None \<Rightarrow> Inr (None, None))"

section \<open>The regular expressions\<close>

text \<open>
  \<open>re.search\<close> returns the leftmost match. \<open>search_after key skip take s\<close> is the
  group of a pattern \<open>key skip* (take+)\<close>: the literal \<open>key\<close>, then any run of \<open>skip\<close>
  characters, then a non-empty maximal run of \<open>take\<close> characters, where no
  character is both. It covers \<open>"width":\s*(\d+)\<close>, \<open>"height":\s*(\d+)\<close> and
  \<open>fps=\s*([\d.]+)\<close>.
\<close>

fun search_after :: "string \<Rightarrow> (char \<Rightarrow> bool) \<Rightarrow> (char \<Rightarrow> bool) \<Rightarrow> string \<Rightarrow> string option" where
  "search_after key skip take' [] = None"
| "search_after key skip take' (c # cs) =
     (let g = takeWhile take' (dropWhile skip (drop (length key) (c # cs)))
      in if prefix key (c # cs) \<and> g \<noteq> [] then Some g
         else search_after key skip take' cs)"

definition dquote :: char where
  "dquote = CHR 0x22"

definition width_key :: string where
  "width_key = dquote # ''width'' @ [dquote] @ '':''"

definition height_key :: string where
  "height_key = dquote # ''height'' @ [dquote] @ '':''"

definition duration_key :: string where
  "duration_key = dquote # ''duration'' @ [dquote] @ '':''"

text \<open>\<open>"duration":\s*"([^"]+)"\<close>: after the key and whitespace an opening quote, a
  non-empty run of characters other than the quote, and the closing quote.\<close>

fun search_duration :: "string \<Rightarrow> string option" where
  "search_duration [] = None"
| "search_duration (c # cs) =
     (let r = dropWhile is_space (drop (length duration_key) (c # cs));
          g = takeWhile (\<lambda>x. x \<noteq> dquote) (tl r);
          after = dropWhile (\<lambda>x. x \<noteq> dquote) (tl r)
      in if prefix duration_key (c # cs) \<and> r \<noteq> [] \<and> hd r = dquote \<and> g \<noteq> [] \<and> after \<noteq> []
         then Some g
         else search_duration cs)"

text \<open>\<open>time=(\d{2}):(\d{2}):(\d{2}.\d{2})\<close> at the start of a string: the three
  groups. The dot matches any character but a newline.\<close>

definition match_time :: "string \<Rightarrow> (string \<times> string \<times> string) option" where
  "match_time s =
     (let r = drop 5 s
      in if prefix ''time='' s \<and> 11 \<le> length r
            \<and> is_digit (r ! 0) \<and> is_digit (r ! 1) \<and> r ! 2 = CHR '':''
            \<and> is_digit (r ! 3) \<and> is_digit (r ! 4) \<and> r ! 5 = CHR '':''
            \<and> is_digit (r ! 6) \<and> is_digit (r ! 7) \<and> r ! 8 \<noteq> CHR 0x0A
            \<and> is_digit (r ! 9) \<and> is_digit (r ! 10)
         then Some (take 2 r, take 2 (drop 3 r), take 5 (drop 6 r))
         else None)"

fun search_time :: "string \<Rightarrow> (string \<times> string \<times> string) option" where
  "search_time [] = None"
| "search_time (c # cs) =
     (case match_time (c # cs) of
        Some g \<Rightarrow> Some g
      | None \<Rightarrow> search_time cs)"

section \<open>get\_video\_info\<close>

definition ffprobe_cmd :: "string \<Rightarrow> string list" where
  "ffprobe_cmd video_path =
     [''ffprobe'', ''-v'', ''quiet'', ''-print_format'', ''json'',
      ''-show_format'', ''-show_streams'', video_path]"

text \<open>The body of the \<open>try\<close> block: it raises what \<open>subprocess.run\<close>, \<open>int\<close> or
  \<open>float\<close> raise.\<close>

definition get_video_info_body ::
  "(string list \<Rightarrow> run_outcome) \<Rightarrow> string \<Rightarrow> py_exception + (int option \<times> int option \<times> pyfloat)" where
  "get_video_info_body run video_path =
     (case run (ffprobe_cmd video_path) of
        Raised e \<Rightarrow> Inl e
      | Returned returncode out \<Rightarrow>
          (case (search_after width_key is_space is_digit out,
                 search_after height_key is_space is_digit out) of
             (Some width_match, Some height_match) \<Rightarrow>
               (case py_int width_match of
                  Inl e \<Rightarrow> Inl e
                | Inr width \<Rightarrow>
                    (case py_int height_match of
                       Inl e \<Rightarrow> Inl e
                     | Inr height \<Rightarrow>
                         (case search_duration out of
                            None \<Rightarrow> Inr (Some width, Some height, Finite 0)
                          | Some duration_match \<Rightarrow>
                              (case py_float duration_match of
                                 Inl e \<Rightarrow> Inl e
                               | Inr duration \<Rightarrow> Inr (Some width, Some height, duration)))))
           | _ \<Rightarrow> Inr (None, None, Finite 0)))"

text \<open>\<open>except Exception\<close> turns every exception into the failure result.\<close>

definition get_video_info ::
  "(string list \<Rightarrow> run_outcome) \<Rightarrow> string \<Rightarrow> int option \<times> int option \<times> pyfloat" where
  "get_video_info run video_path =
     (case get_video_info_body run video_path of
        Inl e \<Rightarrow> (None, None, Finite 0)
      | Inr r \<Rightarrow> r)"

section \<open>Paths and input discovery\<close>

text \<open>
  \<open>win32\<close> says whether the platform is Windows (\<open>sys.platform == "win32"\<close>, where
  \<open>os.path\<close> is \<open>ntpath\<close>); otherwise \<open>os.path\<close> is \<open>posixpath\<close>. Drive letters are
  not modelled.
\<close>

definition backslash :: char where
  "backslash = CHR 0x5C"

definition seps :: "bool \<Rightarrow> char list" where
  "seps win32 = (if win32 then [backslash, CHR ''/''] else [CHR ''/''])"

definition path_join :: "bool \<Rightarrow> string \<Rightarrow> string \<Rightarrow> string" where
  "path_join win32 a b =
     (if b \<noteq> [] \<and> hd b \<in> set (seps win32) then b
      else if a = [] \<or> last a \<in> set (seps win32) then a @ b
      else a @ [if win32 then backslash else CHR ''/''] @ b)"

definition basename :: "bool \<Rightarrow> string \<Rightarrow> string" where
  "basename win32 p = rev (takeWhile (\<lambda>c. c \<notin> set (seps win32)) (rev p))"

text \<open>\<open>os.path.normcase\<close>: the identity on POSIX; on Windows, slashes become
  backslashes and letters lower case.\<close>

definition normcase :: "bool \<Rightarrow> string \<Rightarrow> string" where
  "normcase win32 s =
     (if win32 then map (\<lambda>c. lower_ascii (if c = CHR ''/'' then backslash else c)) s else s)"

definition ends_with :: "string \<Rightarrow> string \<Rightarrow> bool" where
  "ends_with s suf = prefix (rev suf) (rev s)"

text \<open>\<open>glob\<close> does not match a name that starts with a dot against a pattern that does
  not.\<close>

definition hidden :: "string \<Rightarrow> bool" where
  "hidden name = (name \<noteq> [] \<and> hd name = CHR ''.'')"

text \<open>\<open>fnmatch\<close> of a name against a pattern \<open>*\<close> followed by literal characters: both
  are case-normalised first, which changes them on Windows only.\<close>

definition fnmatch_star :: "bool \<Rightarrow> string \<Rightarrow> string \<Rightarrow> bool" where
  "fnmatch_star win32 name pat = ends_with (normcase win32 name) (normcase win32 (tl pat))"

text \<open>\<open>glob.glob(os.path.join(input_directory, pattern))\<close> for such a pattern, where
  \<open>names\<close> are the entries of the directory in the order the system lists them.\<close>

definition glob_star :: "bool \<Rightarrow> string \<Rightarrow> string list \<Rightarrow> string \<Rightarrow> string list" where
  "glob_star win32 input_directory names pat =
     map (path_join win32 input_directory)
       (filter (\<lambda>name. \<not> hidden name \<and> fnmatch_star win32 name pat) names)"

text \<open>The inner loop over the files one pattern found.\<close>

fun add_found :: "bool \<Rightarrow> string list \<Rightarrow> string list \<Rightarrow> string list" where
  "add_found win32 mp4_files [] = mp4_files"
| "add_found win32 mp4_files (file # found_files) =
     add_found win32
       (if \<not> list_ex (\<lambda>existing. normcase win32 existing = normcase win32 file) mp4_files
        then mp4_files @ [file] else mp4_files)
       found_files"

definition discover :: "bool \<Rightarrow> string \<Rightarrow> string list \<Rightarrow> string list" where
  "discover win32 input_directory names =
     foldl (\<lambda>mp4_files pat. add_found win32 mp4_files (glob_star win32 input_directory names pat))
       [] [''*.mp4'', ''*.MP4'']"


section \<open>Supervising one encode\<close>

datatype job_result =
    SkippedExists | ProbeFailed | AlreadyTarget
  | Completed | ErrorConverting int | UnexpectedError py_exception | Interrupted

text \<open>What a run does that can be observed from outside: the probe and encode
  subprocesses it starts, the progress it prints, and the outcome it reports for a
  file.\<close>

datatype event =
    Probed string
  | Launched "string list"
  | Progress pyfloat pyfloat
  | ReadError py_exception
  | Terminated
  | Reported string job_result

record sup_state =
  current_fps :: pyfloat
  last_percentage :: pyfloat

text \<open>What both platform branches do with a parsed line.\<close>

definition note_progress :: "sup_state \<Rightarrow> progress \<Rightarrow> py_exception + (sup_state \<times> event list)" where
  "note_progress st r =
     (case r of
        (Some time_info, percentage_or_fps) \<Rightarrow>
          (case percentage_or_fps of
             None \<Rightarrow> Inl TypeError
           | Some percentage \<Rightarrow>
               if pf_gt percentage (pf_add (last_percentage st) (Finite 1))
               then Inr (st\<lparr>last_percentage := percentage\<rparr>,
                         [Progress percentage (current_fps st)])
               else Inr (st, []))
      | (None, Some fps) \<Rightarrow> Inr (st\<lparr>current_fps := fps\<rparr>, [])
      | (None, None) \<Rightarrow> Inr (st, []))"

definition unix_line :: "pyfloat \<Rightarrow> sup_state \<Rightarrow> string \<Rightarrow> py_exception + (sup_state \<times> event list)" where
  "unix_line duration st raw =
     (case parse_progress (py_strip raw) duration of
        Inl e \<Rightarrow> Inl e
      | Inr r \<Rightarrow> note_progress st r)"

text \<open>\<open>current_fps = float(fps_match.group(1))\<close> under \<open>except ValueError: pass\<close>.\<close>

definition fallback_fps :: "sup_state \<Rightarrow> string \<Rightarrow> py_exception + sup_state" where
  "fallback_fps st line =
     (case search_after ''fps='' is_space (\<lambda>c. is_digit c \<or> c = CHR ''.'') line of
        None \<Rightarrow> Inr st
      | Some g \<Rightarrow>
          (case py_float g of
             Inl e \<Rightarrow> if e = ValueError then Inr st else Inl e
           | Inr fps \<Rightarrow> Inr (st\<lparr>current_fps := fps\<rparr>)))"

text \<open>The Windows branch reads the human-readable statistics line as well. (Its
  \<open>frame_match\<close> is never used.)\<close>

definition win32_fallback :: "pyfloat \<Rightarrow> sup_state \<Rightarrow> string \<Rightarrow> py_exception + (sup_state \<times> event list)" where
  "win32_fallback duration st line =
     (if py_in ''frame='' line \<or> py_in ''time='' line
      then (case search_time line of
              None \<Rightarrow> Inr (st, [])
            | Some (hours, minutes, seconds) \<Rightarrow>
                if pf_gt duration (Finite 0)
                then (case py_int hours of
                        Inl e \<Rightarrow> Inl e
                      | Inr h \<Rightarrow>
                     (case py_int minutes of
                        Inl e \<Rightarrow> Inl e
                      | Inr m \<Rightarrow>
                     (case py_float seconds of
                        Inl e \<Rightarrow> Inl e
                      | Inr s \<Rightarrow>
                     (case pf_div (pf_add (Finite (real_of_int (h * 3600 + m * 60))) s) duration of
                        Inl e \<Rightarrow> Inl e
                      | Inr q \<Rightarrow>
                     (case fallback_fps st line of
                        Inl e \<Rightarrow> Inl e
                      | Inr st1 \<Rightarrow>
                          let percentage = pf_mul q (Finite 100)
                          in if pf_gt percentage (pf_add (last_percentage st1) (Finite 1))
                                \<or> pf_gt (pf_sub percentage (last_percentage st1)) (Finite 5)
                             then Inr (st1\<lparr>last_percentage := percentage\<rparr>,
                                       [Progress percentage (current_fps st1)])
                             else Inr (st1, []))))))
                else Inr (st, []))
      else Inr (st, []))"

text \<open>One line in the Windows branch: what was printed, and the new state or the
  exception that ended the line early.\<close>

definition win32_line :: "pyfloat \<Rightarrow> sup_state \<Rightarrow> string \<Rightarrow> event list \<times> (py_exception + sup_state)" where
  "win32_line duration st raw =
     (let line = py_strip raw
      in if line = [] then ([], Inr st)
         else (case parse_progress line duration of
                 Inl e \<Rightarrow> ([], Inl e)
               | Inr r \<Rightarrow>
                   (case note_progress st r of
                      Inl e \<Rightarrow> ([], Inl e)
                    | Inr (st1, ev1) \<Rightarrow>
                        (case win32_fallback duration st1 line of
                           Inl e \<Rightarrow> (ev1, Inl e)
                         | Inr (st2, ev2) \<Rightarrow> (ev1 @ ev2, Inr st2)))))"

text \<open>
  The \<open>while\<close> loop over the lines \<open>readline\<close> returns while the child runs; an empty
  string is the end of the stream. On Windows an exception is reported and ends the
  reading; elsewhere it leaves the loop as an exception. The result is what was
  printed and the exception that left the loop, if any.
\<close>

fun read_loop :: "bool \<Rightarrow> pyfloat \<Rightarrow> sup_state \<Rightarrow> string list \<Rightarrow> event list \<times> py_exception option" where
  "read_loop win32 duration st [] = ([], None)"
| "read_loop win32 duration st (raw # rest) =
     (if raw = [] then ([], None)
      else if win32
      then (case win32_line duration st raw of
              (ev, Inl e) \<Rightarrow> (ev @ [ReadError e], None)
            | (ev, Inr st1) \<Rightarrow>
                (case read_loop win32 duration st1 rest of (ev1, r) \<Rightarrow> (ev @ ev1, r)))
      else (case unix_line duration st raw of
              Inl e \<Rightarrow> ([], Some e)
            | Inr (st1, ev) \<Rightarrow>
                (case read_loop win32 duration st1 rest of (ev1, r) \<Rightarrow> (ev @ ev1, r))))"

text \<open>The events the reading loop can add: what it prints.\<close>

definition is_output :: "event \<Rightarrow> bool" where
  "is_output e = (case e of Progress p f \<Rightarrow> True | ReadError x \<Rightarrow> True | _ \<Rightarrow> False)"

section \<open>The batch loop\<close>

text \<open>How a supervised encode ends: \<open>process.wait()\<close> returns the exit status, or the
  user interrupts.\<close>

datatype finish = Exits int | Interrupt

text \<open>What \<open>subprocess.Popen(cmd, ...)\<close> and the child do: \<open>Popen\<close> raises, or the child
  runs, the parent reads these lines from it, the child creates its output file or
  not, and the run ends.\<close>

datatype encode_behaviour = PopenRaises py_exception | Runs "string list" bool finish

record world =
  w_win32 :: bool
  w_run :: "string list \<Rightarrow> run_outcome"
  w_popen :: "string list \<Rightarrow> encode_behaviour"
  w_listdir :: "string \<Rightarrow> string list"
  w_makedirs :: "string \<Rightarrow> py_exception option"

text \<open>What one pass through the body of the \<open>for\<close> loop does to the loop.\<close>

datatype flow = Continue | Break | Propagate py_exception

definition output_path :: "bool \<Rightarrow> string \<Rightarrow> string \<Rightarrow> string" where
  "output_path win32 output_directory input_file =
     path_join win32 output_directory (''converted_'' @ basename win32 input_file)"

text \<open>The \<open>try\<close> statement around the encode: \<open>fs\<close> is the set of paths that exist.\<close>

definition run_encode ::
  "world \<Rightarrow> string set \<Rightarrow> string \<Rightarrow> string \<Rightarrow> pyfloat \<Rightarrow> string list \<Rightarrow> string set \<times> event list \<times> flow" where
  "run_encode w fs filename output_file duration cmd =
     (case w_popen w cmd of
        PopenRaises e \<Rightarrow> (fs, [Reported filename (UnexpectedError e)], Continue)
      | Runs lines creates fin \<Rightarrow>
          let fs1 = (if creates then insert output_file fs else fs)
          in (case read_loop (w_win32 w) duration
                     \<lparr>current_fps = Finite 0, last_percentage = Finite 0\<rparr> lines of
                (ev, Some e) \<Rightarrow>
                  (fs1, Launched cmd # ev @ [Reported filename (UnexpectedError e)], Continue)
              | (ev, None) \<Rightarrow>
                  (case fin of
                     Interrupt \<Rightarrow>
                       (fs1, Launched cmd # ev @ [Terminated, Reported filename Interrupted], Break)
                   | Exits return_code \<Rightarrow>
                       (fs1, Launched cmd # ev @
                          [Reported filename
                             (if return_code = 0 then Completed else ErrorConverting return_code)],
                        Continue))))"

text \<open>The body of the \<open>for\<close> loop for one input file.\<close>

definition process_file ::
  "world \<Rightarrow> string \<Rightarrow> string \<Rightarrow> string set \<Rightarrow> string \<Rightarrow> string set \<times> event list \<times> flow" where
  "process_file w gpu_encoder output_directory fs input_file =
     (let filename = basename (w_win32 w) input_file;
          output_file = output_path (w_win32 w) output_directory input_file
      in if output_file \<in> fs then (fs, [Reported filename SkippedExists], Continue)
         else (case get_video_info (w_run w) input_file of
                 (Some width, Some height, duration) \<Rightarrow>
                   if width = 1920 \<and> height = 1080
                   then (fs, [Probed input_file, Reported filename AlreadyTarget], Continue)
                   else (case convert_video input_file output_file width height gpu_encoder of
                           Inl e \<Rightarrow> (fs, [Probed input_file], Propagate e)
                         | Inr cmd \<Rightarrow>
                             (case run_encode w fs filename output_file duration cmd of
                                (fs1, ev, fl) \<Rightarrow> (fs1, Probed input_file # ev, fl)))
               | _ \<Rightarrow> (fs, [Probed input_file, Reported filename ProbeFailed], Continue)))"

fun batch_loop ::
  "world \<Rightarrow> string \<Rightarrow> string \<Rightarrow> string set \<Rightarrow> string list \<Rightarrow> string set \<times> event list \<times> flow" where
  "batch_loop w gpu_encoder output_directory fs [] = (fs, [], Continue)"
| "batch_loop w gpu_encoder output_directory fs (input_file # rest) =
     (case process_file w gpu_encoder output_directory fs input_file of
        (fs1, ev, Continue) \<Rightarrow>
          (case batch_loop w gpu_encoder output_directory fs1 rest of
             (fs2, ev1, fl) \<Rightarrow> (fs2, ev @ ev1, fl))
      | (fs1, ev, Break) \<Rightarrow> (fs1, ev, Break)
      | (fs1, ev, Propagate e) \<Rightarrow> (fs1, ev, Propagate e))"

text \<open>The whole function: the paths that exist afterwards, what was observed, and
  the exception that left the function, if any.\<close>

definition convert_all_mp4s ::
  "world \<Rightarrow> string \<Rightarrow> string option \<Rightarrow> string set \<Rightarrow> string set \<times> event list \<times> py_exception option" where
  "convert_all_mp4s w input_directory output_directory_arg fs =
     (let output_directory =
            (case output_directory_arg of
               None \<Rightarrow> path_join (w_win32 w) input_directory ''converted''
             | Some d \<Rightarrow> d)
      in case w_makedirs w output_directory of
           Some e \<Rightarrow> (fs, [], Some e)
         | None \<Rightarrow>
             let fs1 = insert output_directory fs
             in (case detect_gpu_encoder (w_run w) of
                   Inl e \<Rightarrow> (fs1, [], Some e)
                 | Inr gpu_encoder \<Rightarrow>
                     let mp4_files = discover (w_win32 w) input_directory (w_listdir w input_directory)
                     in if mp4_files = [] then (fs1, [], None)
                        else (case batch_loop w gpu_encoder output_directory fs1 mp4_files of
                                (fs2, ev, Propagate e) \<Rightarrow> (fs2, ev, Some e)
                              | (fs2, ev, _) \<Rightarrow> (fs2, ev, None))))"

section \<open>The program\<close>

text \<open>\<open>subprocess.run(cmd, capture_output=True, check=True)\<close>: a non-zero exit status
  raises \<open>CalledProcessError\<close>.\<close>

definition run_checked :: "(string list \<Rightarrow> run_outcome) \<Rightarrow> string list \<Rightarrow> py_exception option" where
  "run_checked run cmd =
     (case run cmd of
        Returned returncode out \<Rightarrow> if returncode \<noteq> 0 then Some CalledProcessError else None
      | Raised e \<Rightarrow> Some e)"

text \<open>How the process ends: with an exit status, or on an exception nobody caught.\<close>

datatype proc_end = Exit int | Uncaught py_exception

text \<open>The interpreter exits with status 1 after an uncaught exception.\<close>

fun exit_status :: "proc_end \<Rightarrow> int" where
  "exit_status (Exit n) = n"
| "exit_status (Uncaught e) = 1"

definition tools_check :: "(string list \<Rightarrow> run_outcome) \<Rightarrow> py_exception option" where
  "tools_check run =
     (case run_checked run [''ffmpeg'', ''-version''] of
        Some e \<Rightarrow> Some e
      | None \<Rightarrow> run_checked run [''ffprobe'', ''-version''])"

definition main :: "world \<Rightarrow> string set \<Rightarrow> string set \<times> event list \<times> proc_end" where
  "main w fs =
     (case tools_check (w_run w) of
        Some e \<Rightarrow>
          if e \<in> {CalledProcessError, FileNotFoundError} then (fs, [], Exit 1)
          else (fs, [], Uncaught e)
      | None \<Rightarrow>
          (case convert_all_mp4s w ''.'' None fs of
             (fs1, ev, Some e) \<Rightarrow> (fs1, ev, Uncaught e)
           | (fs1, ev, None) \<Rightarrow> (fs1, ev, Exit 0)))"

section \<open>Example environments\<close>

text \<open>A probe output as \<open>ffprobe -print_format json\<close> prints it, reduced to the three
  fields the converter reads.\<close>

definition ffprobe_json :: "string \<Rightarrow> string \<Rightarrow> string \<Rightarrow> string" where
  "ffprobe_json w h d =
     ''{'' @ width_key @ '' '' @ w @ '', '' @ height_key @ '' '' @ h @ '', ''
       @ duration_key @ '' '' @ [dquote] @ d @ [dquote] @ ''}''"

text \<open>A machine where the NVENC probe times out, the AMF probe fails and every other
  command succeeds; four files can be probed.\<close>

definition demo_run :: "string list \<Rightarrow> run_outcome" where
  "demo_run cmd =
     (if cmd = probe_cmd ''h264_nvenc'' then Raised TimeoutExpired
      else if cmd = probe_cmd ''h264_amf'' then Returned 1 []
      else if cmd = ffprobe_cmd ''./a.mp4'' then Returned 0 (ffprobe_json ''1280'' ''720'' ''10.000000'')
      else if cmd = ffprobe_cmd ''./b.mp4'' then Returned 0 (ffprobe_json ''1920'' ''1080'' ''5.000000'')
      else if cmd = ffprobe_cmd ''./c.mp4'' then Returned 0 (ffprobe_json ''640'' ''480'' ''8.000000'')
      else if cmd = ffprobe_cmd ''./z.mp4'' then Returned 0 (ffprobe_json ''0'' ''0'' ''3.000000'')
      else Returned 0 [])"

text \<open>A machine where every command exits with status 1.\<close>

definition failing_run :: "string list \<Rightarrow> run_outcome" where
  "failing_run cmd = Returned 1 []"

definition newline :: char where
  "newline = CHR 0x0A"

text \<open>The encode of \<open>a.mp4\<close> prints three lines and succeeds; the user interrupts the
  encode of \<open>c.mp4\<close>; no other encode can be started.\<close>

definition lines_a :: "string list" where
  "lines_a = [''out_time_us=5000000'' @ [newline], ''fps=30.0'' @ [newline],
              ''out_time_us=10000000'' @ [newline]]"

definition lines_c :: "string list" where
  "lines_c = [''out_time_us=4000000'' @ [newline]]"

definition demo_popen :: "string list \<Rightarrow> encode_behaviour" where
  "demo_popen cmd =
     (if ''./a.mp4'' \<in> set cmd then Runs lines_a True (Exits 0)
      else if ''./c.mp4'' \<in> set cmd then Runs lines_c True Interrupt
      else PopenRaises FileNotFoundError)"

text \<open>A POSIX machine whose current directory has the given entries.\<close>

definition demo_world :: "string list \<Rightarrow> world" where
  "demo_world names =
     \<lparr>w_win32 = False, w_run = demo_run, w_popen = demo_popen,
      w_listdir = (\<lambda>d. names), w_makedirs = (\<lambda>d. None)\<rparr>"

text \<open>The encode commands built for \<open>a.mp4\<close> and \<open>c.mp4\<close> with the QuickSync encoder.\<close>

definition cmd_a :: "string list" where
  "cmd_a = [''ffmpeg'', ''-i'', ''./a.mp4'', ''-vf'', scale_filter_const, ''-c:v'', ''h264_qsv'',
            ''-c:a'', ''copy'', ''-preset'', ''veryfast'', ''-global_quality'', ''23'',
            ''-y'', ''-stats'', ''./converted/converted_a.mp4'']"

definition cmd_c :: "string list" where
  "cmd_c = [''ffmpeg'', ''-i'', ''./c.mp4'', ''-vf'', scale_filter_const, ''-c:v'', ''h264_qsv'',
            ''-c:a'', ''copy'', ''-preset'', ''veryfast'', ''-global_quality'', ''23'',
            ''-y'', ''-stats'', ''./converted/converted_c.mp4'']"

section \<open>Facts about the builtins\<close>

lemmas pyparse = py_int_def py_float_def split_sign_def py_strip_def is_space_def is_digit_def
  digit_val_def nat_of_digits_def lower_ascii_def opt_digits_def mantissa_def exponent_def
  decimal_def

lemma py_int_error: "py_int s = Inl e \<Longrightarrow> e = ValueError"
  by (auto simp: py_int_def Let_def split: prod.splits option.splits)

lemma py_float_error: "py_float s = Inl e \<Longrightarrow> e = ValueError"
  by (auto simp: py_float_def Let_def split: prod.splits option.splits if_splits)

lemma py_item_error: "py_item xs i = Inl e \<Longrightarrow> e = IndexError"
  by (auto simp: py_item_def split: if_splits)

lemma pf_div_pos: "pf_div a duration = Inl e \<Longrightarrow> \<not> pf_gt duration (Finite 0)"
  by (cases duration; cases a) (auto split: if_splits)

lemma py_insert_m3: "py_insert (pre @ [a, b, c]) (- 3) x = pre @ [x, a, b, c]"
  by (simp add: py_insert_def Let_def)

lemma inserts_tail3: "inserts (pre @ [a, b, c]) xs = pre @ xs @ [a, b, c]"
proof (induction xs arbitrary: pre)
  case Nil
  then show ?case by (simp add: inserts_def)
next
  case (Cons x xs)
  have "inserts (pre @ [a, b, c]) (x # xs) = inserts ((pre @ [x]) @ [a, b, c]) xs"
    by (simp add: inserts_def py_insert_m3)
  then show ?case using Cons.IH[of "pre @ [x]"] by simp
qed

lemma inserts_cmd:
  "inserts [p0, p1, p2, p3, p4, p5, p6, p7, p8, a, b, c] xs
     = [p0, p1, p2, p3, p4, p5, p6, p7, p8] @ xs @ [a, b, c]"
  using inserts_tail3[of "[p0, p1, p2, p3, p4, p5, p6, p7, p8]" a b c xs] by simp

section \<open>The encoder selector\<close>

lemma detect_loop_first:
  assumes "\<forall>c \<in> set pre. rejected run (fst c)" and "accepted run enc"
  shows "detect_loop run (pre @ (enc, name) # post) = Inr enc"
  using assms
  by (induction pre) (auto simp: rejected_def accepted_def split: run_outcome.splits)

lemma detect_loop_none:
  assumes "\<forall>c \<in> set cands. rejected run (fst c)"
  shows "detect_loop run cands = Inr ''libx264''"
  using assms
  by (induction cands) (auto simp: rejected_def split: run_outcome.splits)

lemma detect_loop_total:
  assumes "\<forall>c \<in> set cands. accepted run (fst c) \<or> rejected run (fst c)"
  shows "\<exists>r. detect_loop run cands = Inr r"
  using assms
  by (induction cands) (auto simp: rejected_def accepted_def split: run_outcome.splits)

lemma detect_loop_result:
  assumes "detect_loop run cands = Inr r" and "r \<noteq> ''libx264''"
  shows "accepted run r \<and> r \<in> fst ` set cands"
  using assms
  by (induction cands) (auto simp: accepted_def split: run_outcome.splits if_splits)

lemma accepted_not_rejected: "accepted run enc \<Longrightarrow> \<not> rejected run enc"
  by (auto simp: accepted_def rejected_def split: run_outcome.splits)

text \<open>
  C1, as the code has it. For every candidate list: the selector returns the first
  candidate whose probe exits with status 0, when every candidate before it was
  rejected (non-zero exit, timeout, missing executable); when every candidate is
  rejected it returns \<open>libx264\<close>; when every probe ends in one of these ways the
  selector returns a value; and a result other than \<open>libx264\<close> is a candidate that
  was accepted, never one that was rejected.
\<close>

theorem detect_loop_selects:
  "(cands = pre @ (enc, name) # post \<and> (\<forall>c \<in> set pre. rejected run (fst c)) \<and> accepted run enc
      \<longrightarrow> detect_loop run cands = Inr enc)
   \<and> ((\<forall>c \<in> set cands. rejected run (fst c)) \<longrightarrow> detect_loop run cands = Inr ''libx264'')
   \<and> ((\<forall>c \<in> set cands. accepted run (fst c) \<or> rejected run (fst c))
        \<longrightarrow> (\<exists>r. detect_loop run cands = Inr r))
   \<and> (detect_loop run cands = Inr r \<and> r \<noteq> ''libx264''
        \<longrightarrow> accepted run r \<and> \<not> rejected run r \<and> r \<in> fst ` set cands)"
  using detect_loop_first[of pre run enc name post] detect_loop_none[of cands run]
    detect_loop_total[of cands run] detect_loop_result[of run cands r]
    accepted_not_rejected[of run r]
  by blast

text \<open>With the NVENC probe timing out and the AMF probe failing, the selector
  returns the third candidate.\<close>

theorem detect_loop_selects_witness:
  "rejected demo_run ''h264_nvenc'' \<and> rejected demo_run ''h264_amf''
   \<and> accepted demo_run ''h264_qsv'' \<and> detect_gpu_encoder demo_run = Inr ''h264_qsv''"
proof -
  have r: "\<forall>c \<in> set [(''h264_nvenc'', ''NVIDIA NVENC''), (''h264_amf'', ''AMD AMF'')].
             rejected demo_run (fst c)"
    by (simp add: rejected_def demo_run_def probe_cmd_def)
  have a: "accepted demo_run ''h264_qsv''"
    by (simp add: accepted_def demo_run_def probe_cmd_def ffprobe_cmd_def)
  have "detect_loop demo_run encoders = Inr ''h264_qsv''"
    using detect_loop_selects[of encoders
        "[(''h264_nvenc'', ''NVIDIA NVENC''), (''h264_amf'', ''AMD AMF'')]"
        "''h264_qsv''" "''Intel QuickSync''" "[(''libx264'', ''CPU (fallback)'')]" demo_run] r a
    by (simp add: encoders_def)
  with r a show ?thesis by (simp add: detect_gpu_encoder_def)
qed

text \<open>C1 as stated fails where the probe of \<open>libx264\<close> is rejected too: the selector
  returns \<open>libx264\<close>, a candidate it rejected in the same run.\<close>

theorem detect_returns_rejected_fallback:
  "detect_gpu_encoder failing_run = Inr ''libx264''
   \<and> rejected failing_run ''libx264''
   \<and> (''libx264'', ''CPU (fallback)'') \<in> set encoders"
  by (simp add: detect_gpu_encoder_def encoders_def failing_run_def rejected_def)

section \<open>The command builder\<close>

lemma convert_video_cmd:
  assumes "h \<noteq> 0"
  shows "convert_video i out w h e =
           Inr ([''ffmpeg'', ''-i'', i, ''-vf'', scale_filter_const, ''-c:v'', e, ''-c:a'', ''copy'']
                @ (if py_in ''nvenc'' e
                   then [''-preset'', ''p1'', ''-tune'', ''hq'', ''-rc'', ''vbr'', ''-cq'', ''23'']
                   else if py_in ''amf'' e
                   then [''-usage'', ''transcoding'', ''-rc'', ''cqp'',
                         ''-qp_i'', ''23'', ''-qp_p'', ''23'']
                   else if py_in ''qsv'' e
                   then [''-preset'', ''veryfast'', ''-global_quality'', ''23'']
                   else [''-preset'', ''ultrafast'', ''-crf'', ''23''])
                @ [''-y'', ''-stats'', out])"
  using assms
  by (simp add: convert_video_def Let_def inserts_cmd scale_filter_const_def)





section \<open>The progress parser\<close>



lemma out_time_body_raises: "out_time_body line duration = Inl e \<Longrightarrow> e \<in> {ValueError, IndexError}"
  by (auto simp: out_time_body_def Let_def split: sum.splits if_splits
      dest: py_int_error py_item_error pf_div_pos)

lemma fps_body_raises: "fps_body line = Inl e \<Longrightarrow> e \<in> {ValueError, IndexError}"
  by (auto simp: fps_body_def Let_def split: sum.splits dest: py_float_error py_item_error)

lemma parse_progress_never_raises: "\<exists>r. parse_progress line duration = Inr r"
  using out_time_body_raises[of line duration] fps_body_raises[of line]
  by (auto simp: parse_progress_def except_pass_def split: sum.splits option.splits)

lemma parse_progress_bad_int:
  assumes "py_in ''out_time_us='' line"
    and "py_item (py_split (CHR ''='') line) 1 = Inr field"
    and "py_int (py_strip field) = Inl e"
  shows "parse_progress line duration = Inr (None, None)"
  using assms py_int_error[OF assms(3)]
  by (simp add: parse_progress_def except_pass_def out_time_body_def)

lemma parse_progress_bad_float:
  assumes "\<not> py_in ''out_time_us='' line" and "py_in ''fps='' line"
    and "py_item (py_split (CHR ''='') line) 1 = Inr field"
    and "py_float (py_strip (py_remove '' fps'' (py_strip field))) = Inl e"
  shows "parse_progress line duration = Inr (None, None)"
  using assms py_float_error[OF assms(4)]
  by (simp add: parse_progress_def except_pass_def fps_body_def Let_def)



text \<open>
  C6. For every line whose recognised numeric field is unparsable (a marker line
  whose field \<open>int\<close> rejects, or a frame-rate line whose field \<open>float\<close> rejects), the
  parser returns the no-event result and raises nothing, and any number of calls on
  the same line all return the no-event result.
\<close>

theorem parse_progress_malformed:
  assumes "(py_in ''out_time_us='' line
              \<and> py_item (py_split (CHR ''='') line) 1 = Inr field
              \<and> py_int (py_strip field) = Inl e)
         \<or> (\<not> py_in ''out_time_us='' line \<and> py_in ''fps='' line
              \<and> py_item (py_split (CHR ''='') line) 1 = Inr field
              \<and> py_float (py_strip (py_remove '' fps'' (py_strip field))) = Inl e)"
  shows "parse_progress line duration = Inr (None, None)
       \<and> map (\<lambda>l. parse_progress l duration) (replicate n line) = replicate n (Inr (None, None))"
proof -
  have "parse_progress line duration = Inr (None, None)"
    using assms parse_progress_bad_int[of line field e duration]
      parse_progress_bad_float[of line field e duration] by blast
  then show ?thesis by simp
qed

text \<open>
  A marker line with the field \<open>N/A\<close> and a frame-rate line with the field \<open>12.x\<close>.
\<close>

theorem parse_progress_malformed_witness:
  "py_in ''out_time_us='' ''out_time_us=N/A''
   \<and> py_item (py_split (CHR ''='') ''out_time_us=N/A'') 1 = Inr ''N/A''
   \<and> py_int (py_strip ''N/A'') = Inl ValueError
   \<and> parse_progress ''out_time_us=N/A'' (Finite 120) = Inr (None, None)
   \<and> map (\<lambda>l. parse_progress l (Finite 120)) (replicate 3 ''out_time_us=N/A'')
       = replicate 3 (Inr (None, None))
   \<and> \<not> py_in ''out_time_us='' ''fps=12.x fps'' \<and> py_in ''fps='' ''fps=12.x fps''
   \<and> py_float (py_strip (py_remove '' fps'' (py_strip ''12.x fps''))) = Inl ValueError
   \<and> parse_progress ''fps=12.x fps'' (Finite 120) = Inr (None, None)"
proof -
  have a: "py_in ''out_time_us='' ''out_time_us=N/A''" by simp
  have b: "py_item (py_split (CHR ''='') ''out_time_us=N/A'') 1 = Inr ''N/A''"
    by (simp add: py_item_def)
  have c: "py_int (py_strip ''N/A'') = Inl ValueError" by (simp add: pyparse)
  have a': "\<not> py_in ''out_time_us='' ''fps=12.x fps''" "py_in ''fps='' ''fps=12.x fps''" by simp_all
  have b': "py_item (py_split (CHR ''='') ''fps=12.x fps'') 1 = Inr ''12.x fps''"
    by (simp add: py_item_def)
  have c': "py_float (py_strip (py_remove '' fps'' (py_strip ''12.x fps''))) = Inl ValueError"
    by (simp add: pyparse)
  from parse_progress_malformed[of "''out_time_us=N/A''" "''N/A''" ValueError "Finite 120" 3]
    parse_progress_malformed[of "''fps=12.x fps''" "''12.x fps''" ValueError "Finite 120" 3]
    a b c a' b' c'
  show ?thesis by simp
qed




section \<open>Input discovery\<close>











lemmas discover_eval = discover_def glob_star_def fnmatch_star_def hidden_def ends_with_def
  normcase_def lower_ascii_def path_join_def seps_def backslash_def



section \<open>The reading loop and the batch loop\<close>

lemma out_time_body_shape:
  "out_time_body line duration = Inr (Some (t, x)) \<Longrightarrow> t \<noteq> None \<and> x \<noteq> None"
  by (auto simp: out_time_body_def Let_def split: sum.splits if_splits)

lemma fps_body_shape:
  "fps_body line = Inr (Some (t, x)) \<Longrightarrow> t = None \<and> x \<noteq> None"
  by (auto simp: fps_body_def Let_def split: sum.splits)

lemma parse_progress_shape:
  assumes "parse_progress line duration = Inr (Some t, x)"
  shows "x \<noteq> None"
  using assms out_time_body_shape[of line duration] fps_body_shape[of line]
  by (auto simp: parse_progress_def except_pass_def split: if_splits sum.splits option.splits)

lemma unix_line_never_raises: "\<exists>st1 ev. unix_line duration st raw = Inr (st1, ev)"
proof -
  obtain r where r: "parse_progress (py_strip raw) duration = Inr r"
    using parse_progress_never_raises by blast
  obtain t x where tx: "r = (t, x)" by (cases r)
  show ?thesis
  proof (cases t)
    case None
    with r tx show ?thesis
      by (cases x) (simp_all add: unix_line_def note_progress_def)
  next
    case (Some a)
    with r tx parse_progress_shape[of "py_strip raw" duration a x] obtain p where "x = Some p"
      by auto
    with r tx Some show ?thesis
      by (simp add: unix_line_def note_progress_def)
  qed
qed

lemma read_loop_no_exception: "read_loop win32 duration st ls = (ev, r) \<Longrightarrow> r = None"
proof (induction ls arbitrary: st ev r)
  case Nil
  then show ?case by simp
next
  case (Cons raw rest)
  show ?case
  proof (cases win32)
    case True
    with Cons.prems Cons.IH show ?thesis
      by (auto split: prod.splits sum.splits if_splits)
  next
    case False
    obtain st1 ev1 where "unix_line duration st raw = Inr (st1, ev1)"
      using unix_line_never_raises by blast
    with False Cons.prems Cons.IH[of st1] show ?thesis
      by (auto split: prod.splits if_splits)
  qed
qed

lemma note_progress_events:
  "note_progress st r = Inr (st1, ev) \<Longrightarrow> \<forall>e \<in> set ev. is_output e"
  by (auto simp: note_progress_def is_output_def split: prod.splits option.splits if_splits)

lemma win32_fallback_events:
  "win32_fallback duration st line = Inr (st1, ev) \<Longrightarrow> \<forall>e \<in> set ev. is_output e"
  by (auto simp: win32_fallback_def is_output_def Let_def
      split: prod.splits option.splits if_splits sum.splits)

lemma unix_line_events:
  "unix_line duration st raw = Inr (st1, ev) \<Longrightarrow> \<forall>e \<in> set ev. is_output e"
  using note_progress_events by (auto simp: unix_line_def split: sum.splits)

lemma win32_line_events:
  "win32_line duration st raw = (ev, r) \<Longrightarrow> \<forall>e \<in> set ev. is_output e"
  using note_progress_events win32_fallback_events
  by (fastforce simp: win32_line_def Let_def split: sum.splits prod.splits if_splits)

lemma read_loop_events:
  "read_loop win32 duration st ls = (ev, r) \<Longrightarrow> e \<in> set ev \<Longrightarrow> is_output e"
proof (induction ls arbitrary: st ev r)
  case Nil
  then show ?case by simp
next
  case (Cons raw rest)
  show ?case
  proof (cases win32)
    case True
    obtain ev0 r0 where wl: "win32_line duration st raw = (ev0, r0)"
      by (cases "win32_line duration st raw")
    from win32_line_events[OF wl] have evs: "\<forall>e \<in> set ev0. is_output e" .
    show ?thesis
    proof (cases r0)
      case (Inl x)
      with True wl evs Cons.prems show ?thesis
        by (auto simp: is_output_def split: if_splits)
    next
      case (Inr st1)
      with True wl evs Cons.prems Cons.IH[of st1] show ?thesis
        by (auto split: prod.splits if_splits)
    qed
  next
    case False
    obtain st1 ev0 where ul: "unix_line duration st raw = Inr (st1, ev0)"
      using unix_line_never_raises by blast
    from unix_line_events[OF ul] have evs: "\<forall>e \<in> set ev0. is_output e" .
    with False ul Cons.prems Cons.IH[of st1] show ?thesis
      by (auto split: prod.splits if_splits)
  qed
qed

lemma read_loop_no_launch:
  "read_loop win32 duration st ls = (ev, r) \<Longrightarrow> Launched c \<notin> set ev"
  using read_loop_events[of win32 duration st ls ev r "Launched c"]
  by (auto simp: is_output_def)

lemma run_encode_launched:
  assumes "run_encode w fs filename output_file duration cmd = (fs1, ev, fl)"
    and "Launched c \<in> set ev"
  shows "c = cmd"
  using assms
  by (auto simp: run_encode_def Let_def split: encode_behaviour.splits prod.splits option.splits
      finish.splits if_splits dest: read_loop_no_launch)

text \<open>
  C3. For every job, whatever exists when the loop reaches it: if the output path
  exists, nothing is probed or launched and the job is reported as skipped; otherwise
  the file is probed, and if the probe failed the job is reported and nothing is
  launched; if the probed dimensions are exactly 1920x1080 the job is reported and
  nothing is launched. An encode subprocess is launched only when the output path
  does not exist, the probe succeeded and the dimensions are not exactly 1920x1080,
  and then with the command the builder made from them.
\<close>

theorem process_file_guards:
  fixes w gpu_encoder output_directory fs input_file
  defines "output_file \<equiv> output_path (w_win32 w) output_directory input_file"
    and "filename \<equiv> basename (w_win32 w) input_file"
    and "info \<equiv> get_video_info (w_run w) input_file"
    and "res \<equiv> process_file w gpu_encoder output_directory fs input_file"
  shows "(output_file \<in> fs \<longrightarrow> res = (fs, [Reported filename SkippedExists], Continue))
       \<and> (output_file \<notin> fs \<and> (fst info = None \<or> fst (snd info) = None) \<longrightarrow>
            res = (fs, [Probed input_file, Reported filename ProbeFailed], Continue))
       \<and> (output_file \<notin> fs \<and> fst info = Some 1920 \<and> fst (snd info) = Some 1080 \<longrightarrow>
            res = (fs, [Probed input_file, Reported filename AlreadyTarget], Continue))
       \<and> (Launched cmd \<in> set (fst (snd res)) \<longrightarrow>
            output_file \<notin> fs
            \<and> (\<exists>width height duration. info = (Some width, Some height, duration)
                  \<and> \<not> (width = 1920 \<and> height = 1080)
                  \<and> convert_video input_file output_file width height gpu_encoder = Inr cmd))"
proof -
  have 1: "output_file \<in> fs \<longrightarrow> res = (fs, [Reported filename SkippedExists], Continue)"
    by (simp add: res_def process_file_def Let_def output_file_def filename_def)
  have 2: "output_file \<notin> fs \<and> (fst info = None \<or> fst (snd info) = None) \<longrightarrow>
            res = (fs, [Probed input_file, Reported filename ProbeFailed], Continue)"
    by (auto simp: res_def process_file_def Let_def output_file_def filename_def info_def
        split: prod.splits option.splits)
  have 3: "output_file \<notin> fs \<and> fst info = Some 1920 \<and> fst (snd info) = Some 1080 \<longrightarrow>
            res = (fs, [Probed input_file, Reported filename AlreadyTarget], Continue)"
    by (auto simp: res_def process_file_def Let_def output_file_def filename_def info_def
        split: prod.splits option.splits)
  have 4: "Launched cmd \<in> set (fst (snd res)) \<longrightarrow>
            output_file \<notin> fs
            \<and> (\<exists>width height duration. info = (Some width, Some height, duration)
                  \<and> \<not> (width = 1920 \<and> height = 1080)
                  \<and> convert_video input_file output_file width height gpu_encoder = Inr cmd)"
    unfolding res_def process_file_def Let_def output_file_def filename_def info_def
    by (auto split: prod.splits option.splits if_splits sum.splits dest: run_encode_launched)
  from 1 2 3 4 show ?thesis by blast
qed

lemma batch_loop_append:
  assumes "batch_loop w enc outdir fs pre = (fs1, ev1, Continue)"
  shows "batch_loop w enc outdir fs (pre @ rest) =
           (case batch_loop w enc outdir fs1 rest of (fs2, ev2, fl) \<Rightarrow> (fs2, ev1 @ ev2, fl))"
  using assms
proof (induction pre arbitrary: fs fs1 ev1)
  case Nil
  then show ?case by (auto split: prod.splits)
next
  case (Cons f pre)
  obtain fsa eva fla where pf: "process_file w enc outdir fs f = (fsa, eva, fla)"
    by (cases "process_file w enc outdir fs f")
  with Cons.prems have fla: "fla = Continue"
    by (cases fla) (auto split: prod.splits)
  obtain fsb evb flb where bl: "batch_loop w enc outdir fsa pre = (fsb, evb, flb)"
    by (cases "batch_loop w enc outdir fsa pre")
  with Cons.prems pf fla have eq: "fsb = fs1" "ev1 = eva @ evb" "flb = Continue"
    by auto
  from Cons.IH[of fsa fs1 evb] bl eq
  have "batch_loop w enc outdir fsa (pre @ rest) =
           (case batch_loop w enc outdir fs1 rest of (fs2, ev2, fl) \<Rightarrow> (fs2, evb @ ev2, fl))"
    by simp
  with pf fla eq show ?case
    by (auto split: prod.splits)
qed

lemma process_file_interrupted:
  assumes "output_path (w_win32 w) outdir f \<notin> fs1"
    and "get_video_info (w_run w) f = (Some width, Some height, duration)"
    and "\<not> (width = 1920 \<and> height = 1080)"
    and "convert_video f (output_path (w_win32 w) outdir f) width height enc = Inr cmd"
    and "w_popen w cmd = Runs lines creates Interrupt"
  shows "process_file w enc outdir fs1 f =
           ((if creates then insert (output_path (w_win32 w) outdir f) fs1 else fs1),
            Probed f # Launched cmd
              # fst (read_loop (w_win32 w) duration
                       \<lparr>current_fps = Finite 0, last_percentage = Finite 0\<rparr> lines)
              @ [Terminated, Reported (basename (w_win32 w) f) Interrupted],
            Break)"
proof -
  obtain ev0 r0 where e: "read_loop (w_win32 w) duration
      \<lparr>current_fps = Finite 0, last_percentage = Finite 0\<rparr> lines = (ev0, r0)"
    by (cases "read_loop (w_win32 w) duration
      \<lparr>current_fps = Finite 0, last_percentage = Finite 0\<rparr> lines")
  from read_loop_no_exception[OF e] have r0: "r0 = None" .
  have "run_encode w fs1 (basename (w_win32 w) f) (output_path (w_win32 w) outdir f) duration cmd =
          ((if creates then insert (output_path (w_win32 w) outdir f) fs1 else fs1),
           Launched cmd # ev0 @ [Terminated, Reported (basename (w_win32 w) f) Interrupted],
           Break)"
    using assms(5) e r0 by (simp add: run_encode_def Let_def)
  then show ?thesis
    using assms(1-4) e by (simp add: process_file_def Let_def)
qed

text \<open>
  C9. Let the jobs before \<open>f\<close> have run through, and let the user interrupt while the
  encode of \<open>f\<close> is supervised. Then the subprocess is terminated and the loop stops:
  the run is the one of the queue that ends with \<open>f\<close>, whatever files follow, so no
  file after \<open>f\<close> is probed or encoded. What the earlier jobs did stays: their events
  come first, unchanged, and the paths that existed after them still exist.
\<close>

theorem interrupt_halts_queue:
  assumes "batch_loop w enc outdir fs pre = (fs1, ev1, Continue)"
    and "output_path (w_win32 w) outdir f \<notin> fs1"
    and "get_video_info (w_run w) f = (Some width, Some height, duration)"
    and "\<not> (width = 1920 \<and> height = 1080)"
    and "convert_video f (output_path (w_win32 w) outdir f) width height enc = Inr cmd"
    and "w_popen w cmd = Runs lines creates Interrupt"
  shows "batch_loop w enc outdir fs (pre @ f # post) =
           ((if creates then insert (output_path (w_win32 w) outdir f) fs1 else fs1),
            ev1 @ Probed f # Launched cmd
              # fst (read_loop (w_win32 w) duration
                       \<lparr>current_fps = Finite 0, last_percentage = Finite 0\<rparr> lines)
              @ [Terminated, Reported (basename (w_win32 w) f) Interrupted],
            Break)
       \<and> batch_loop w enc outdir fs (pre @ f # post) = batch_loop w enc outdir fs (pre @ [f])"
proof -
  have "batch_loop w enc outdir fs (pre @ f # rest) =
           ((if creates then insert (output_path (w_win32 w) outdir f) fs1 else fs1),
            ev1 @ Probed f # Launched cmd
              # fst (read_loop (w_win32 w) duration
                       \<lparr>current_fps = Finite 0, last_percentage = Finite 0\<rparr> lines)
              @ [Terminated, Reported (basename (w_win32 w) f) Interrupted],
            Break)" for rest
    using batch_loop_append[OF assms(1), of "f # rest"] process_file_interrupted[OF assms(2-6)]
    by simp
  from this[of post] this[of "[]"] show ?thesis by simp
qed

lemmas keys = width_key_def height_key_def duration_key_def dquote_def
lemmas probe_eval = get_video_info_def get_video_info_body_def demo_run_def ffprobe_cmd_def
  probe_cmd_def ffprobe_json_def keys pyparse
lemmas path_eval = output_path_def basename_def path_join_def seps_def backslash_def
lemmas parse_eval = parse_progress_def except_pass_def out_time_body_def fps_body_def py_item_def
  note_progress_def unix_line_def newline_def

lemma gvi_a: "get_video_info demo_run ''./a.mp4'' = (Some 1280, Some 720, Finite 10)"
  by (simp add: probe_eval)

lemma gvi_b: "get_video_info demo_run ''./b.mp4'' = (Some 1920, Some 1080, Finite 5)"
  by (simp add: probe_eval)

lemma gvi_c: "get_video_info demo_run ''./c.mp4'' = (Some 640, Some 480, Finite 8)"
  by (simp add: probe_eval)

lemma gvi_z: "get_video_info demo_run ''./z.mp4'' = (Some 0, Some 0, Finite 3)"
  by (simp add: probe_eval)

lemma gvi_x: "get_video_info demo_run ''./x.mp4'' = (None, None, Finite 0)"
  by (simp add: probe_eval)

lemma cv_a: "convert_video ''./a.mp4'' ''./converted/converted_a.mp4'' 1280 720 ''h264_qsv'' = Inr cmd_a"
  by (simp add: convert_video_cmd cmd_a_def)

lemma cv_c: "convert_video ''./c.mp4'' ''./converted/converted_c.mp4'' 640 480 ''h264_qsv'' = Inr cmd_c"
  by (simp add: convert_video_cmd cmd_c_def)

lemma rl_a: "read_loop False (Finite 10) \<lparr>current_fps = Finite 0, last_percentage = Finite 0\<rparr> lines_a
   = ([Progress (Finite 50) (Finite 0), Progress (Finite 100) (Finite 30)], None)"
  by (simp add: lines_a_def parse_eval pyparse)

lemma rl_c: "read_loop False (Finite 8) \<lparr>current_fps = Finite 0, last_percentage = Finite 0\<rparr> lines_c
   = ([Progress (Finite 50) (Finite 0)], None)"
  by (simp add: lines_c_def parse_eval pyparse)

lemma pf_a: "process_file (demo_world names) ''h264_qsv'' ''./converted'' {''./converted''} ''./a.mp4''
   = ({''./converted/converted_a.mp4'', ''./converted''},
      [Probed ''./a.mp4'', Launched cmd_a, Progress (Finite 50) (Finite 0),
       Progress (Finite 100) (Finite 30), Reported ''a.mp4'' Completed], Continue)"
  by (simp add: process_file_def Let_def demo_world_def gvi_a path_eval cv_a run_encode_def
      demo_popen_def cmd_a_def scale_filter_const_def rl_a)

section \<open>Runs of the whole program\<close>

lemma pf_b: "process_file (demo_world names) ''h264_qsv'' ''./converted'' {''./converted''} ''./b.mp4''
   = ({''./converted''}, [Probed ''./b.mp4'', Reported ''b.mp4'' AlreadyTarget], Continue)"
  by (simp add: process_file_def Let_def demo_world_def gvi_b path_eval)

lemma pf_z: "process_file (demo_world names) ''h264_qsv'' ''./converted'' {''./converted''} ''./z.mp4''
   = ({''./converted''}, [Probed ''./z.mp4''], Propagate ZeroDivisionError)"
  by (simp add: process_file_def Let_def demo_world_def gvi_z path_eval convert_video_def)

lemma convert_video_raises:
  "convert_video i out w h e = Inl x \<Longrightarrow> h = 0 \<and> x = ZeroDivisionError"
  by (auto simp: convert_video_def Let_def split: if_splits)

lemma run_encode_flow:
  "run_encode w fs filename output_file duration cmd = (fs1, ev, fl) \<Longrightarrow> fl \<noteq> Propagate e"
  by (auto simp: run_encode_def Let_def split: encode_behaviour.splits prod.splits option.splits
      finish.splits if_splits)

lemma process_file_propagate:
  assumes "process_file w enc outdir fs f = (fs1, ev, Propagate e)"
  shows "e = ZeroDivisionError \<and> (\<exists>width d. get_video_info (w_run w) f = (Some width, Some 0, d))"
  using assms
  by (auto simp: process_file_def Let_def split: if_splits prod.splits option.splits sum.splits
      dest: convert_video_raises run_encode_flow)

text \<open>
  The only exception that leaves the loop is the division by a probed height of 0.
\<close>

lemma batch_loop_propagate:
  assumes "batch_loop w enc outdir fs files = (fs1, ev, Propagate e)"
  shows "e = ZeroDivisionError
       \<and> (\<exists>f \<in> set files. \<exists>width d. get_video_info (w_run w) f = (Some width, Some 0, d))"
  using assms
proof (induction files arbitrary: fs fs1 ev)
  case Nil
  then show ?case by simp
next
  case (Cons f files)
  obtain fsa eva fla where pf: "process_file w enc outdir fs f = (fsa, eva, fla)"
    by (cases "process_file w enc outdir fs f")
  show ?case
  proof (cases fla)
    case Continue
    obtain fsb evb flb where bl: "batch_loop w enc outdir fsa files = (fsb, evb, flb)"
      by (cases "batch_loop w enc outdir fsa files")
    with Cons.prems pf Continue have "flb = Propagate e" by simp
    with Cons.IH[of fsa fsb evb] bl show ?thesis by auto
  next
    case Break
    with Cons.prems pf show ?thesis by simp
  next
    case (Propagate x)
    with Cons.prems pf have "x = e" by simp
    with process_file_propagate[of w enc outdir fs f fsa eva e] pf Propagate show ?thesis by auto
  qed
qed

lemma detect_demo: "detect_gpu_encoder demo_run = Inr ''h264_qsv''"
  by (simp add: detect_gpu_encoder_def encoders_def demo_run_def probe_cmd_def ffprobe_cmd_def)

lemma tools_demo: "tools_check demo_run = None"
  by (simp add: tools_check_def run_checked_def demo_run_def probe_cmd_def ffprobe_cmd_def)

lemma main_zero_height:
  "main (demo_world [''z.mp4'', ''a.mp4'']) {} =
     ({''./converted''}, [Probed ''./z.mp4''], Uncaught ZeroDivisionError)"
proof -
  have d: "discover False ''.'' [''z.mp4'', ''a.mp4''] = [''./z.mp4'', ''./a.mp4'']"
    by (simp add: discover_eval)
  have w: "w_win32 (demo_world [''z.mp4'', ''a.mp4'']) = False"
    "w_run (demo_world [''z.mp4'', ''a.mp4'']) = demo_run"
    "w_listdir (demo_world [''z.mp4'', ''a.mp4'']) ''.'' = [''z.mp4'', ''a.mp4'']"
    "w_makedirs (demo_world [''z.mp4'', ''a.mp4'']) ''./converted'' = None"
    by (simp_all add: demo_world_def)
  have j: "path_join False ''.'' ''converted'' = ''./converted''"
    by (simp add: path_eval)
  have "convert_all_mp4s (demo_world [''z.mp4'', ''a.mp4'']) ''.'' None {} =
          ({''./converted''}, [Probed ''./z.mp4''], Some ZeroDivisionError)"
    by (simp add: convert_all_mp4s_def Let_def w j detect_demo d pf_z)
  then show ?thesis
    by (simp add: main_def w tools_demo)
qed

lemma main_scenario:
  "main (demo_world [''a.mp4'', ''b.mp4'']) {} =
     ({''./converted/converted_a.mp4'', ''./converted''},
      [Probed ''./a.mp4'', Launched cmd_a, Progress (Finite 50) (Finite 0),
       Progress (Finite 100) (Finite 30), Reported ''a.mp4'' Completed,
       Probed ''./b.mp4'', Reported ''b.mp4'' AlreadyTarget],
      Exit 0)"
proof -
  have d: "discover False ''.'' [''a.mp4'', ''b.mp4''] = [''./a.mp4'', ''./b.mp4'']"
    by (simp add: discover_eval)
  have w: "w_win32 (demo_world [''a.mp4'', ''b.mp4'']) = False"
    "w_run (demo_world [''a.mp4'', ''b.mp4'']) = demo_run"
    "w_listdir (demo_world [''a.mp4'', ''b.mp4'']) ''.'' = [''a.mp4'', ''b.mp4'']"
    "w_makedirs (demo_world [''a.mp4'', ''b.mp4'']) ''./converted'' = None"
    by (simp_all add: demo_world_def)
  have j: "path_join False ''.'' ''converted'' = ''./converted''"
    by (simp add: path_eval)
  have b: "process_file (demo_world [''a.mp4'', ''b.mp4'']) ''h264_qsv'' ''./converted''
             {''./converted/converted_a.mp4'', ''./converted''} ''./b.mp4''
   = ({''./converted/converted_a.mp4'', ''./converted''},
      [Probed ''./b.mp4'', Reported ''b.mp4'' AlreadyTarget], Continue)"
    by (simp add: process_file_def Let_def demo_world_def gvi_b path_eval)
  have "convert_all_mp4s (demo_world [''a.mp4'', ''b.mp4'']) ''.'' None {} =
     ({''./converted/converted_a.mp4'', ''./converted''},
      [Probed ''./a.mp4'', Launched cmd_a, Progress (Finite 50) (Finite 0),
       Progress (Finite 100) (Finite 30), Reported ''a.mp4'' Completed,
       Probed ''./b.mp4'', Reported ''b.mp4'' AlreadyTarget],
      None)"
    by (simp add: convert_all_mp4s_def Let_def w j detect_demo d pf_a b)
  then show ?thesis
    by (simp add: main_def w tools_demo)
qed

text \<open>
  C4 does not hold of the code. The command is built before the \<open>try\<close> statement, so
  the division by a probed height of 0 is not caught: with \<open>z.mp4\<close> probed at 0x0
  first in the directory, the program ends on \<open>ZeroDivisionError\<close> with exit status 1
  and \<open>a.mp4\<close> is never probed. The same machine converts \<open>a.mp4\<close> and skips \<open>b.mp4\<close>
  with exit status 0 when \<open>z.mp4\<close> is not there.
\<close>

theorem main_crashes_on_zero_height:
  "main (demo_world [''z.mp4'', ''a.mp4'']) {} =
     ({''./converted''}, [Probed ''./z.mp4''], Uncaught ZeroDivisionError)
   \<and> exit_status (Uncaught ZeroDivisionError) = 1
   \<and> get_video_info demo_run ''./z.mp4'' = (Some 0, Some 0, Finite 3)
   \<and> main (demo_world [''a.mp4'', ''b.mp4'']) {} =
     ({''./converted/converted_a.mp4'', ''./converted''},
      [Probed ''./a.mp4'', Launched cmd_a, Progress (Finite 50) (Finite 0),
       Progress (Finite 100) (Finite 30), Reported ''a.mp4'' Completed,
       Probed ''./b.mp4'', Reported ''b.mp4'' AlreadyTarget],
      Exit 0)"
  using main_zero_height main_scenario gvi_z by simp

text \<open>
  An output that exists, a probe that fails, a 1920x1080 source, and a 1280x720 source
  that is encoded.
\<close>

theorem process_file_guards_witness:
  "process_file (demo_world []) ''h264_qsv'' ''./converted''
       {''./converted'', ''./converted/converted_a.mp4''} ''./a.mp4''
     = ({''./converted'', ''./converted/converted_a.mp4''}, [Reported ''a.mp4'' SkippedExists], Continue)
   \<and> process_file (demo_world []) ''h264_qsv'' ''./converted'' {''./converted''} ''./x.mp4''
     = ({''./converted''}, [Probed ''./x.mp4'', Reported ''x.mp4'' ProbeFailed], Continue)
   \<and> process_file (demo_world []) ''h264_qsv'' ''./converted'' {''./converted''} ''./b.mp4''
     = ({''./converted''}, [Probed ''./b.mp4'', Reported ''b.mp4'' AlreadyTarget], Continue)
   \<and> Launched cmd_a \<in> set (fst (snd (process_file (demo_world []) ''h264_qsv'' ''./converted''
                                          {''./converted''} ''./a.mp4'')))
   \<and> ''./converted/converted_a.mp4'' \<notin> {''./converted''}
   \<and> get_video_info demo_run ''./a.mp4'' = (Some 1280, Some 720, Finite 10)
   \<and> convert_video ''./a.mp4'' ''./converted/converted_a.mp4'' 1280 720 ''h264_qsv'' = Inr cmd_a"
proof -
  have w: "w_win32 (demo_world []) = False" "w_run (demo_world []) = demo_run"
    by (simp_all add: demo_world_def)
  have o: "output_path False ''./converted'' ''./a.mp4'' = ''./converted/converted_a.mp4''"
    "output_path False ''./converted'' ''./b.mp4'' = ''./converted/converted_b.mp4''"
    "output_path False ''./converted'' ''./x.mp4'' = ''./converted/converted_x.mp4''"
    "basename False ''./a.mp4'' = ''a.mp4''" "basename False ''./b.mp4'' = ''b.mp4''"
    "basename False ''./x.mp4'' = ''x.mp4''"
    by (simp_all add: path_eval)
  have l: "Launched cmd_a \<in> set (fst (snd (process_file (demo_world []) ''h264_qsv'' ''./converted''
                                          {''./converted''} ''./a.mp4'')))"
    by (simp add: pf_a)
  from process_file_guards[where w = "demo_world []" and gpu_encoder = "''h264_qsv''"
      and output_directory = "''./converted''"
      and fs = "{''./converted'', ''./converted/converted_a.mp4''}" and input_file = "''./a.mp4''"]
  have 1: "process_file (demo_world []) ''h264_qsv'' ''./converted''
       {''./converted'', ''./converted/converted_a.mp4''} ''./a.mp4''
     = ({''./converted'', ''./converted/converted_a.mp4''}, [Reported ''a.mp4'' SkippedExists], Continue)"
    by (simp add: w o)
  from process_file_guards[where w = "demo_world []" and gpu_encoder = "''h264_qsv''"
      and output_directory = "''./converted''"
      and fs = "{''./converted''}" and input_file = "''./x.mp4''"]
  have 2: "process_file (demo_world []) ''h264_qsv'' ''./converted'' {''./converted''} ''./x.mp4''
     = ({''./converted''}, [Probed ''./x.mp4'', Reported ''x.mp4'' ProbeFailed], Continue)"
    by (simp add: w o gvi_x)
  from process_file_guards[where w = "demo_world []" and gpu_encoder = "''h264_qsv''"
      and output_directory = "''./converted''"
      and fs = "{''./converted''}" and input_file = "''./b.mp4''"]
  have 3: "process_file (demo_world []) ''h264_qsv'' ''./converted'' {''./converted''} ''./b.mp4''
     = ({''./converted''}, [Probed ''./b.mp4'', Reported ''b.mp4'' AlreadyTarget], Continue)"
    by (simp add: w o gvi_b)
  from process_file_guards[where w = "demo_world []" and gpu_encoder = "''h264_qsv''"
      and output_directory = "''./converted''"
      and fs = "{''./converted''}" and input_file = "''./a.mp4''" and cmd = cmd_a] l
  have 4: "''./converted/converted_a.mp4'' \<notin> {''./converted''}
     \<and> convert_video ''./a.mp4'' ''./converted/converted_a.mp4'' 1280 720 ''h264_qsv'' = Inr cmd_a"
    by (simp add: w o gvi_a)
  from 1 2 3 4 l gvi_a show ?thesis by simp
qed

text \<open>
  \<open>a.mp4\<close> is converted, the encode of \<open>c.mp4\<close> is interrupted, \<open>b.mp4\<close> is never
  touched.
\<close>

theorem interrupt_halts_queue_witness:
  "batch_loop (demo_world []) ''h264_qsv'' ''./converted'' {''./converted''} [''./a.mp4'']
     = ({''./converted/converted_a.mp4'', ''./converted''},
        [Probed ''./a.mp4'', Launched cmd_a, Progress (Finite 50) (Finite 0),
         Progress (Finite 100) (Finite 30), Reported ''a.mp4'' Completed], Continue)
   \<and> demo_popen cmd_c = Runs lines_c True Interrupt
   \<and> batch_loop (demo_world []) ''h264_qsv'' ''./converted'' {''./converted''}
        [''./a.mp4'', ''./c.mp4'', ''./b.mp4'']
     = ({''./converted/converted_c.mp4'', ''./converted/converted_a.mp4'', ''./converted''},
        [Probed ''./a.mp4'', Launched cmd_a, Progress (Finite 50) (Finite 0),
         Progress (Finite 100) (Finite 30), Reported ''a.mp4'' Completed,
         Probed ''./c.mp4'', Launched cmd_c, Progress (Finite 50) (Finite 0),
         Terminated, Reported ''c.mp4'' Interrupted], Break)"
proof -
  have w: "w_win32 (demo_world []) = False" "w_run (demo_world []) = demo_run"
    "w_popen (demo_world []) = demo_popen"
    by (simp_all add: demo_world_def)
  have o: "output_path False ''./converted'' ''./c.mp4'' = ''./converted/converted_c.mp4''"
    "basename False ''./c.mp4'' = ''c.mp4''"
    by (simp_all add: path_eval)
  have pre: "batch_loop (demo_world []) ''h264_qsv'' ''./converted'' {''./converted''} [''./a.mp4'']
     = ({''./converted/converted_a.mp4'', ''./converted''},
        [Probed ''./a.mp4'', Launched cmd_a, Progress (Finite 50) (Finite 0),
         Progress (Finite 100) (Finite 30), Reported ''a.mp4'' Completed], Continue)"
    by (simp add: pf_a)
  have ex: "output_path (w_win32 (demo_world [])) ''./converted'' ''./c.mp4''
              \<notin> {''./converted/converted_a.mp4'', ''./converted''}"
    by (simp add: w o)
  have gv: "get_video_info (w_run (demo_world [])) ''./c.mp4'' = (Some 640, Some 480, Finite 8)"
    by (simp add: w gvi_c)
  have nt: "\<not> ((640 :: int) = 1920 \<and> (480 :: int) = 1080)" by simp
  have cv: "convert_video ''./c.mp4'' (output_path (w_win32 (demo_world [])) ''./converted'' ''./c.mp4'')
              640 480 ''h264_qsv'' = Inr cmd_c"
    by (simp add: w o cv_c)
  have po: "w_popen (demo_world []) cmd_c = Runs lines_c True Interrupt"
    by (simp add: w demo_popen_def cmd_c_def scale_filter_const_def)
  have po': "demo_popen cmd_c = Runs lines_c True Interrupt"
    using po by (simp add: w)
  have full: "batch_loop (demo_world []) ''h264_qsv'' ''./converted'' {''./converted''}
        [''./a.mp4'', ''./c.mp4'', ''./b.mp4'']
     = ({''./converted/converted_c.mp4'', ''./converted/converted_a.mp4'', ''./converted''},
        [Probed ''./a.mp4'', Launched cmd_a, Progress (Finite 50) (Finite 0),
         Progress (Finite 100) (Finite 30), Reported ''a.mp4'' Completed,
         Probed ''./c.mp4'', Launched cmd_c, Progress (Finite 50) (Finite 0),
         Terminated, Reported ''c.mp4'' Interrupted], Break)"
    using interrupt_halts_queue[OF pre ex gv nt cv po, of "[''./b.mp4'']"]
    by (simp add: w o rl_c del: batch_loop.simps read_loop.simps)
  from pre po' full show ?thesis by (simp del: batch_loop.simps)
qed

end
